theory Spec2Isabelle
  imports Main "HOL-Library.Sublist"
begin

section \<open>Strings\<close>

text \<open>
  A JavaScript string is a sequence of UTF-16 code units and \<open>length\<close> counts code
  units. The model uses \<^typ>\<open>string\<close>, one \<^typ>\<open>char\<close> for each code unit, so it
  covers the strings whose code units lie in U+0000..U+00FF. On these
  \<open>toLowerCase\<close>, \<open>toUpperCase\<close> and \<open>trim\<close> are the functions of ECMAScript:
  \<^item> \<open>toLowerCase\<close> maps A-Z and the capitals U+00C0..U+00DE, without the
    multiplication sign U+00D7, to the letter 32 places on, and nothing else;
  \<^item> \<open>trim\<close> strips the white space and line terminators of the range: TAB, LF, VT,
    FF, CR, SPACE and the no-break space U+00A0;
  \<^item> \<open>toUpperCase\<close> maps a-z and U+00E0..U+00FE, without the division sign U+00F7, to
    the letter 32 places back, the sharp s U+00DF to \<open>SS\<close>, the micro sign U+00B5 to
    U+039C and U+00FF to U+0178. The last two leave the range, so its result is a list
    of code units as numbers.
\<close>

definition upperLetters :: string where
  "upperLetters = ''ABCDEFGHIJKLMNOPQRSTUVWXYZ'' @
     [CHR 0xC0, CHR 0xC1, CHR 0xC2, CHR 0xC3, CHR 0xC4, CHR 0xC5, CHR 0xC6, CHR 0xC7,
      CHR 0xC8, CHR 0xC9, CHR 0xCA, CHR 0xCB, CHR 0xCC, CHR 0xCD, CHR 0xCE, CHR 0xCF,
      CHR 0xD0, CHR 0xD1, CHR 0xD2, CHR 0xD3, CHR 0xD4, CHR 0xD5, CHR 0xD6,
      CHR 0xD8, CHR 0xD9, CHR 0xDA, CHR 0xDB, CHR 0xDC, CHR 0xDD, CHR 0xDE]"

definition lowerLetters :: string where
  "lowerLetters = ''abcdefghijklmnopqrstuvwxyz'' @
     [CHR 0xE0, CHR 0xE1, CHR 0xE2, CHR 0xE3, CHR 0xE4, CHR 0xE5, CHR 0xE6, CHR 0xE7,
      CHR 0xE8, CHR 0xE9, CHR 0xEA, CHR 0xEB, CHR 0xEC, CHR 0xED, CHR 0xEE, CHR 0xEF,
      CHR 0xF0, CHR 0xF1, CHR 0xF2, CHR 0xF3, CHR 0xF4, CHR 0xF5, CHR 0xF6,
      CHR 0xF8, CHR 0xF9, CHR 0xFA, CHR 0xFB, CHR 0xFC, CHR 0xFD, CHR 0xFE]"

definition toLowerChar :: "char \<Rightarrow> char" where
  "toLowerChar c = (case map_of (zip upperLetters lowerLetters) c of Some l \<Rightarrow> l | None \<Rightarrow> c)"

definition toLowerCase :: "string \<Rightarrow> string" where
  "toLowerCase s = map toLowerChar s"

text \<open>A string of the model as its code units.\<close>

definition codeUnits :: "string \<Rightarrow> nat list" where
  "codeUnits s = map of_char s"

definition toUpperUnits :: "char \<Rightarrow> nat list" where
  "toUpperUnits c =
     (if c = CHR 0xDF then [0x53, 0x53]
      else if c = CHR 0xB5 then [0x39C]
      else if c = CHR 0xFF then [0x178]
      else case map_of (zip lowerLetters upperLetters) c of
             Some u \<Rightarrow> [of_char u]
           | None \<Rightarrow> [of_char c])"

definition toUpperCase :: "string \<Rightarrow> nat list" where
  "toUpperCase s = concat (map toUpperUnits s)"

definition whiteSpace :: string where
  "whiteSpace = [CHR 0x09, CHR 0x0A, CHR 0x0B, CHR 0x0C, CHR 0x0D, CHR 0x20, CHR 0xA0]"

definition isWhiteSpace :: "char \<Rightarrow> bool" where
  "isWhiteSpace c = (c \<in> set whiteSpace)"

definition trim :: "string \<Rightarrow> string" where
  "trim s = rev (dropWhile isWhiteSpace (rev (dropWhile isWhiteSpace s)))"

text \<open>\<open>s.includes(q)\<close>: \<open>q\<close> occurs in \<open>s\<close> at some position (\<open>includes\<close> is an Isabelle keyword, hence the suffix).\<close>

fun includes_str :: "string \<Rightarrow> string \<Rightarrow> bool" where
  "includes_str [] q = (q = [])"
| "includes_str (c # cs) q = (prefix q (c # cs) \<or> includes_str cs q)"

section \<open>Data\<close>

text \<open>An entry of \<open>MOCK_DEPARTMENTS\<close>. The fields \<open>id\<close> and \<open>name\<close> carry the
  prefix \<open>dept_\<close>.\<close>

record department_record =
  dept_id :: string
  dept_name :: string
  description :: string
  icon :: string
  color :: string
  employees :: nat
  active :: bool

definition MOCK_DEPARTMENTS :: "department_record list" where
  "MOCK_DEPARTMENTS =
    [\<lparr>dept_id = ''hr'', dept_name = ''Human Resources'',
      description = ''Manage employee relations, recruitment, and workforce development'',
      icon = ''fas fa-users'', color = ''#667eea'', employees = 25, active = True\<rparr>,
     \<lparr>dept_id = ''finance'', dept_name = ''Finance'',
      description = ''Financial planning, budgeting, and accounting operations'',
      icon = ''fas fa-chart-line'', color = ''#f093fb'', employees = 18, active = True\<rparr>,
     \<lparr>dept_id = ''it'', dept_name = ''Information Technology'',
      description = ''Technology infrastructure, development, and support services'',
      icon = ''fas fa-laptop-code'', color = ''#4facfe'', employees = 32, active = True\<rparr>,
     \<lparr>dept_id = ''security'', dept_name = ''Security'',
      description = ''Information security, physical security, and risk management'',
      icon = ''fas fa-shield-alt'', color = ''#43e97b'', employees = 15, active = True\<rparr>,
     \<lparr>dept_id = ''hse'', dept_name = ''HSE'',
      description = ''Health, Safety, and Environment management and compliance'',
      icon = ''fas fa-hard-hat'', color = ''#fa709a'', employees = 20, active = True\<rparr>,
     \<lparr>dept_id = ''customer-service'', dept_name = ''Customer Service'',
      description = ''Customer support, satisfaction, and relationship management'',
      icon = ''fas fa-headset'', color = ''#4facfe'', employees = 35, active = True\<rparr>,
     \<lparr>dept_id = ''environment'', dept_name = ''Environment'',
      description = ''Environmental protection, sustainability, and green initiatives'',
      icon = ''fas fa-leaf'', color = ''#43e97b'', employees = 18, active = True\<rparr>]"

section \<open>Dashboard search\<close>

text \<open>
  The fields of \<open>Dashboard\<close> that \<open>handleSearch\<close> reads and writes: the value of the
  search input, the loaded list and the displayed list. \<open>renderDepartments\<close> only
  turns \<open>filteredDepartments\<close> into markup and is left out.
\<close>

record dashboard =
  searchInput :: string
  departments :: "department_record list"
  filteredDepartments :: "department_record list"

definition handleSearch :: "dashboard \<Rightarrow> dashboard" where
  "handleSearch this =
     (let query = trim (toLowerCase (searchInput this)) in
      if query = []
      then this\<lparr>filteredDepartments := departments this\<rparr>
      else this\<lparr>filteredDepartments :=
             filter (\<lambda>dept. includes_str (toLowerCase (dept_name dept)) query
                           \<or> includes_str (toLowerCase (description dept)) query
                           \<or> includes_str (toLowerCase (dept_id dept)) query)
                    (departments this)\<rparr>)"

section \<open>The browser around the program\<close>

text \<open>
  \<open>CONFIG.STORAGE_KEYS\<close>.
\<close>

definition STORAGE_KEYS_DEPARTMENTS :: string where
  "STORAGE_KEYS_DEPARTMENTS = ''megaproject_departments''"

definition STORAGE_KEYS_USER_SESSION :: string where
  "STORAGE_KEYS_USER_SESSION = ''megaproject_session''"

definition STORAGE_KEYS_REMEMBER_ME :: string where
  "STORAGE_KEYS_REMEMBER_ME = ''megaproject_remember''"

text \<open>The object \<open>userData\<close> that \<open>loginUser\<close> builds. Field names that the
  credentials use too carry the prefix \<open>user_\<close>. \<open>user_name\<close> is a list of code units,
  since \<open>toUpperCase\<close> can leave the range of the model's strings.\<close>

record session_user =
  user_id :: int
  user_username :: string
  user_department :: string
  user_name :: "nat list"
  email :: string
  role :: string
  permissions :: "string list"
  lastLogin :: string

text \<open>
  The three shapes the program writes to \<open>localStorage\<close>:
  \<open>{data, timestamp}\<close>, \<open>userData\<close> and \<open>{username, department}\<close>.
  \<open>JSON.stringify\<close> followed by \<open>JSON.parse\<close> gives back an equal value for these
  shapes (strings, integers, booleans, arrays and plain objects), so the store holds
  the values themselves.
\<close>

datatype stored =
    CacheEntry "department_record list" int
  | SessionData session_user
  | RememberedLogin string string

text \<open>
  What a call can read and change. \<open>localStorage\<close> is the content of the platform
  store. The platform may refuse an access: \<open>setItemThrows key v\<close> says that
  \<open>localStorage.setItem\<close> throws for this key and value (a full or disabled store),
  \<open>getItemThrows key\<close> that the read of this key throws (\<open>localStorage.getItem\<close>
  itself, or \<open>JSON.parse\<close> on an item that is not JSON). Both are fixed for the
  duration of a call.
  \<open>apiDelays\<close> counts the simulated round trips (\<open>Utils.simulateApiDelay\<close>) that have
  been awaited; the timer itself is not modelled, and the readings of \<open>Date.now()\<close>
  are arguments of the calls.
\<close>

record world =
  localStorage :: "string \<rightharpoonup> stored"
  setItemThrows :: "string \<Rightarrow> stored \<Rightarrow> bool"
  getItemThrows :: "string \<Rightarrow> bool"
  apiDelays :: nat

text \<open>
  \<open>Utils.storage.set\<close> and \<open>Utils.storage.get\<close>. Each catches the exception of the
  platform store: \<open>set\<close> then returns \<open>false\<close> and has written nothing, \<open>get\<close> then
  returns the default value \<open>null\<close>, as it does for a key that is absent.
\<close>

definition storage_set :: "string \<Rightarrow> stored \<Rightarrow> world \<Rightarrow> bool \<times> world" where
  "storage_set key v w =
     (if setItemThrows w key v then (False, w)
      else (True, w\<lparr>localStorage := (localStorage w)(key \<mapsto> v)\<rparr>))"

definition storage_get :: "string \<Rightarrow> world \<Rightarrow> stored option" where
  "storage_get key w = (if getItemThrows w key then None else localStorage w key)"

definition simulateApiDelay :: "world \<Rightarrow> world" where
  "simulateApiDelay w = w\<lparr>apiDelays := Suc (apiDelays w)\<rparr>"

text \<open>The objects \<open>{success, data, error, message}\<close> that \<open>ApiService\<close> returns; a
  property the object does not have is \<open>None\<close>.\<close>

record 'a api_result =
  success :: bool
  data :: 'a
  error :: "string option"
  message :: "string option"

section \<open>ApiService.fetchDepartments\<close>

text \<open>
  The step between the cache check and the cache write is the awaited delay and
  \<open>const data = MOCK_DEPARTMENTS\<close>, for which the source names the real request in
  a comment. Its outcome is an argument: either the list it yields or the message
  of the exception it throws. \<open>mockFetch\<close> is the outcome of the step as written.
\<close>

datatype 'a outcome = Resolved 'a | Rejected string

definition mockFetch :: "department_record list outcome" where
  "mockFetch = Resolved MOCK_DEPARTMENTS"

text \<open>\<open>cached && cached.timestamp > Date.now() - 5 * 60 * 1000\<close>, with the list of
  the entry when it holds. A value of another shape has no \<open>timestamp\<close>, and
  \<open>undefined > n\<close> is false.\<close>

definition cacheHit :: "int \<Rightarrow> stored option \<Rightarrow> department_record list option" where
  "cacheHit now cached =
     (case cached of
        Some (CacheEntry cdata ts) \<Rightarrow> if ts > now - 5 * 60 * 1000 then Some cdata else None
      | _ \<Rightarrow> None)"

text \<open>The body of the \<open>try\<close>: \<open>Inl\<close> is an exception on its way to the
  \<open>catch\<close>. \<open>now\<close> is the clock at the check, \<open>now'\<close> the clock at the write. The
  value that \<open>Utils.storage.set\<close> returns is dropped.\<close>

definition fetchDepartments_try ::
  "department_record list outcome \<Rightarrow> int \<Rightarrow> int \<Rightarrow> world
     \<Rightarrow> (string + department_record list api_result) \<times> world" where
  "fetchDepartments_try fetched now now' w =
     (case cacheHit now (storage_get STORAGE_KEYS_DEPARTMENTS w) of
        Some cdata \<Rightarrow>
          (Inr \<lparr>success = True, data = cdata, error = None, message = None\<rparr>, w)
      | None \<Rightarrow>
          (let w1 = simulateApiDelay w in
           case fetched of
             Rejected e \<Rightarrow> (Inl e, w1)
           | Resolved fdata \<Rightarrow>
               (Inr \<lparr>success = True, data = fdata, error = None, message = None\<rparr>,
                snd (storage_set STORAGE_KEYS_DEPARTMENTS (CacheEntry fdata now') w1))))"

definition fetchDepartments ::
  "department_record list outcome \<Rightarrow> int \<Rightarrow> int \<Rightarrow> world
     \<Rightarrow> department_record list api_result \<times> world" where
  "fetchDepartments fetched now now' w =
     (case fetchDepartments_try fetched now now' w of
        (Inr result, w') \<Rightarrow> (result, w')
      | (Inl e, w') \<Rightarrow>
          (\<lparr>success = False, data = [],
            error = Some ''Unable to load departments. Please try again later.'',
            message = None\<rparr>, w'))"

section \<open>ApiService.loginUser\<close>

record credentials =
  username :: string
  password :: string
  department :: string
  rememberMe :: bool

text \<open>
  The body of the \<open>try\<close>. A string is falsy exactly when it is empty. \<open>now\<close> is
  \<open>Date.now()\<close> and \<open>isoNow\<close> is \<open>new Date().toISOString()\<close>. The delay is awaited
  before the checks. The values that \<open>Utils.storage.set\<close> returns are dropped.
\<close>

definition loginUser_try ::
  "credentials \<Rightarrow> int \<Rightarrow> string \<Rightarrow> world
     \<Rightarrow> (string + session_user option api_result) \<times> world" where
  "loginUser_try creds now isoNow w =
     (let w1 = simulateApiDelay w in
      if username creds = [] \<or> password creds = [] \<or> department creds = []
      then (Inl ''All fields are required'', w1)
      else if length (username creds) < 3
      then (Inl ''Username must be at least 3 characters'', w1)
      else if length (password creds) < 6
      then (Inl ''Password must be at least 6 characters'', w1)
      else
        (let userData =
               \<lparr>user_id = now,
                user_username = username creds,
                user_department = department creds,
                user_name = toUpperCase (take 1 (username creds))
                              @ codeUnits (drop 1 (username creds))
                              @ codeUnits '' User'',
                email = username creds @ ''@megaproject.com'',
                role = ''user'',
                permissions = [''read'', ''write''],
                lastLogin = isoNow\<rparr>;
             w2 = (if rememberMe creds
                   then snd (storage_set STORAGE_KEYS_REMEMBER_ME
                               (RememberedLogin (username creds) (department creds)) w1)
                   else w1);
             w3 = snd (storage_set STORAGE_KEYS_USER_SESSION (SessionData userData) w2)
         in (Inr \<lparr>success = True, data = Some userData, error = None,
                   message = Some ''Login successful! Redirecting to dashboard...''\<rparr>,
             w3)))"

definition loginUser ::
  "credentials \<Rightarrow> int \<Rightarrow> string \<Rightarrow> world \<Rightarrow> session_user option api_result \<times> world" where
  "loginUser creds now isoNow w =
     (case loginUser_try creds now isoNow w of
        (Inr result, w') \<Rightarrow> (result, w')
      | (Inl e, w') \<Rightarrow>
          (\<lparr>success = False, data = None,
            error = Some (if e \<noteq> [] then e
                          else ''Login failed. Please check your credentials.''),
            message = None\<rparr>, w'))"

section \<open>LoginManager.validateField\<close>

text \<open>
  What \<open>validateField\<close> reads of a form control: \<open>type\<close>, \<open>tagName\<close> and
  \<open>value\<close>.
\<close>

record field =
  field_type :: string
  tagName :: string
  field_value :: string

text \<open>The verdict: the value returned, and the message handed to
  \<open>setFieldValidation\<close>, which only restyles the control.\<close>

record validation =
  isValid :: bool
  errorMessage :: string

text \<open>\<open>field.type || field.tagName.toLowerCase()\<close>\<close>

definition fieldKind :: "field \<Rightarrow> string" where
  "fieldKind f = (if field_type f \<noteq> [] then field_type f else toLowerCase (tagName f))"

definition validateField :: "field option \<Rightarrow> validation" where
  "validateField fo =
     (case fo of
        None \<Rightarrow> \<lparr>isValid = True, errorMessage = []\<rparr>
      | Some f \<Rightarrow>
          (let v = trim (field_value f); kind = fieldKind f in
           if kind = ''text'' then
             (if v = [] then \<lparr>isValid = False, errorMessage = ''Username is required''\<rparr>
              else if length v < 3
              then \<lparr>isValid = False, errorMessage = ''Username must be at least 3 characters''\<rparr>
              else \<lparr>isValid = True, errorMessage = []\<rparr>)
           else if kind = ''password'' then
             (if v = [] then \<lparr>isValid = False, errorMessage = ''Password is required''\<rparr>
              else if length v < 6
              then \<lparr>isValid = False, errorMessage = ''Password must be at least 6 characters''\<rparr>
              else \<lparr>isValid = True, errorMessage = []\<rparr>)
           else if kind = ''select-one'' then
             (if v = [] then \<lparr>isValid = False, errorMessage = ''Please select a department''\<rparr>
              else \<lparr>isValid = True, errorMessage = []\<rparr>)
           else \<lparr>isValid = True, errorMessage = []\<rparr>))"

section \<open>Facts about strings\<close>

lemmas str_defs = toLowerCase_def toLowerChar_def toUpperCase_def toUpperUnits_def codeUnits_def
  upperLetters_def lowerLetters_def trim_def isWhiteSpace_def whiteSpace_def

lemma includes_str_sublist: "includes_str s q \<longleftrightarrow> sublist q s"
  by (induction s) (auto simp: sublist_Cons_right)

lemma isWhiteSpace_toLowerChar: "isWhiteSpace (toLowerChar c) = isWhiteSpace c"
  by (auto simp: isWhiteSpace_def whiteSpace_def toLowerChar_def upperLetters_def lowerLetters_def)

lemma dropWhile_toLowerCase:
  "dropWhile isWhiteSpace (toLowerCase s) = toLowerCase (dropWhile isWhiteSpace s)"
  by (induction s) (simp_all add: toLowerCase_def isWhiteSpace_toLowerChar)

lemma trim_toLowerCase: "trim (toLowerCase s) = toLowerCase (trim s)"
proof -
  have rev_lower: "rev (toLowerCase t) = toLowerCase (rev t)" for t
    by (simp add: toLowerCase_def rev_map)
  show ?thesis
    unfolding trim_def
    by (simp only: dropWhile_toLowerCase rev_lower)
qed

lemma toLowerCase_Nil_iff: "toLowerCase s = [] \<longleftrightarrow> s = []"
  by (simp add: toLowerCase_def)

section \<open>The search filter\<close>

text \<open>
  Claim C2. For every list of department records and every query, the filtering step
  of \<open>Dashboard.handleSearch\<close> leaves the loaded list as it was, and the displayed
  list is the loaded list restricted, in its order, to the records whose lowercased
  name, description or identifier has the trimmed and lowercased query as a contiguous
  substring (\<open>sublist q s\<close>: \<open>s = ps @ q @ ss\<close> for some \<open>ps\<close> and \<open>ss\<close>); so it is
  a subsequence of the loaded list and its records are among the loaded ones. The
  source lowercases the query before it trims it, which gives the same string.
\<close>

theorem handleSearch_filter:
  "departments (handleSearch this) = departments this
   \<and> filteredDepartments (handleSearch this) =
       filter (\<lambda>dept. sublist (toLowerCase (trim (searchInput this))) (toLowerCase (dept_name dept))
                     \<or> sublist (toLowerCase (trim (searchInput this))) (toLowerCase (description dept))
                     \<or> sublist (toLowerCase (trim (searchInput this))) (toLowerCase (dept_id dept)))
              (departments this)
   \<and> subseq (filteredDepartments (handleSearch this)) (departments this)
   \<and> set (filteredDepartments (handleSearch this)) \<subseteq> set (departments this)"
proof -
  let ?q = "trim (toLowerCase (searchInput this))"
  have keep: "departments (handleSearch this) = departments this"
    by (simp add: handleSearch_def Let_def)
  have flt: "filteredDepartments (handleSearch this) =
       filter (\<lambda>dept. sublist ?q (toLowerCase (dept_name dept))
                     \<or> sublist ?q (toLowerCase (description dept))
                     \<or> sublist ?q (toLowerCase (dept_id dept)))
              (departments this)"
  proof (cases "?q = []")
    case True
    then show ?thesis by (simp add: handleSearch_def)
  next
    case False
    then show ?thesis by (simp add: handleSearch_def Let_def includes_str_sublist)
  qed
  have sub: "subseq (filteredDepartments (handleSearch this)) (departments this)"
    unfolding flt by (rule subseq_filter_left)
  have "set (filteredDepartments (handleSearch this)) \<subseteq> set (departments this)"
    unfolding flt by (rule filter_is_subset)
  with keep flt sub show ?thesis
    by (simp only: trim_toLowerCase simp_thms)
qed

theorem handleSearch_filter_witness:
  "map dept_id (filteredDepartments (handleSearch
      \<lparr>searchInput = ''  SEC '', departments = MOCK_DEPARTMENTS, filteredDepartments = []\<rparr>))
     = [''security'']
   \<and> subseq (filteredDepartments (handleSearch
      \<lparr>searchInput = ''  SEC '', departments = MOCK_DEPARTMENTS, filteredDepartments = []\<rparr>))
        MOCK_DEPARTMENTS
   \<and> departments (handleSearch
      \<lparr>searchInput = ''  SEC '', departments = MOCK_DEPARTMENTS, filteredDepartments = []\<rparr>)
     = MOCK_DEPARTMENTS
   \<and> map dept_id (filteredDepartments (handleSearch
      \<lparr>searchInput = ''caf'' @ [CHR 0xE9],
       departments = [\<lparr>dept_id = ''bar'', dept_name = ''CAF'' @ [CHR 0xC9], description = [],
                       icon = [], color = [], employees = 0, active = True\<rparr>],
       filteredDepartments = []\<rparr>))
     = [''bar'']"
proof -
  let ?d = "\<lparr>searchInput = ''  SEC '', departments = MOCK_DEPARTMENTS, filteredDepartments = []\<rparr>"
  let ?e = "\<lparr>searchInput = ''caf'' @ [CHR 0xE9],
       departments = [\<lparr>dept_id = ''bar'', dept_name = ''CAF'' @ [CHR 0xC9], description = [],
                       icon = [], color = [], employees = 0, active = True\<rparr>],
       filteredDepartments = []\<rparr>"
  have ids: "map dept_id (filteredDepartments (handleSearch ?d)) = [''security'']"
    by code_simp
  have accent: "map dept_id (filteredDepartments (handleSearch ?e)) = [''bar'']"
    by code_simp
  from handleSearch_filter [of ?d] ids accent show ?thesis by simp
qed

text \<open>
  Claim C3. A query that is empty after trimming, in particular the empty string,
  makes the displayed list equal to the loaded list, in the same order.
\<close>

theorem handleSearch_empty_query:
  assumes "trim (searchInput this) = []"
  shows "filteredDepartments (handleSearch this) = departments this"
proof -
  from assms have "trim (toLowerCase (searchInput this)) = []"
    by (simp add: trim_toLowerCase toLowerCase_Nil_iff)
  then show ?thesis
    by (simp add: handleSearch_def)
qed

theorem handleSearch_empty_query_witness:
  "trim ''  '' = []
   \<and> filteredDepartments (handleSearch
        \<lparr>searchInput = ''  '', departments = MOCK_DEPARTMENTS, filteredDepartments = []\<rparr>)
      = MOCK_DEPARTMENTS
   \<and> filteredDepartments (handleSearch
        \<lparr>searchInput = [], departments = MOCK_DEPARTMENTS, filteredDepartments = []\<rparr>)
      = MOCK_DEPARTMENTS
   \<and> trim [CHR 0xA0] = []
   \<and> filteredDepartments (handleSearch
        \<lparr>searchInput = [CHR 0xA0], departments = MOCK_DEPARTMENTS, filteredDepartments = []\<rparr>)
      = MOCK_DEPARTMENTS"
proof -
  have blank: "trim ''  '' = []" and empty: "trim [] = []" and nbsp: "trim [CHR 0xA0] = []"
    by (simp_all add: trim_def isWhiteSpace_def whiteSpace_def)
  from blank empty nbsp
    handleSearch_empty_query [of "\<lparr>searchInput = ''  '', departments = MOCK_DEPARTMENTS, filteredDepartments = []\<rparr>"]
    handleSearch_empty_query [of "\<lparr>searchInput = [], departments = MOCK_DEPARTMENTS, filteredDepartments = []\<rparr>"]
    handleSearch_empty_query [of "\<lparr>searchInput = [CHR 0xA0], departments = MOCK_DEPARTMENTS, filteredDepartments = []\<rparr>"]
  show ?thesis by simp
qed

section \<open>The directory cache\<close>

lemma cacheHit_Some_iff:
  "cacheHit now cached = Some cdata \<longleftrightarrow> (\<exists>ts. cached = Some (CacheEntry cdata ts) \<and> now - ts < 300000)"
  by (auto simp: cacheHit_def split: option.splits stored.splits)

lemma cacheHit_None_iff:
  "cacheHit now cached = None \<longleftrightarrow> \<not> (\<exists>cdata ts. cached = Some (CacheEntry cdata ts) \<and> now - ts < 300000)"
  by (auto simp: cacheHit_def split: option.splits stored.splits)

lemma fetchDepartments_hit:
  "cacheHit now (storage_get STORAGE_KEYS_DEPARTMENTS w) = Some cdata \<Longrightarrow>
   fetchDepartments fetched now now' w =
     (\<lparr>success = True, data = cdata, error = None, message = None\<rparr>, w)"
  by (simp add: fetchDepartments_def fetchDepartments_try_def)

lemma fetchDepartments_miss_resolved:
  "cacheHit now (storage_get STORAGE_KEYS_DEPARTMENTS w) = None \<Longrightarrow>
   fetchDepartments (Resolved fdata) now now' w =
     (\<lparr>success = True, data = fdata, error = None, message = None\<rparr>,
      if setItemThrows w STORAGE_KEYS_DEPARTMENTS (CacheEntry fdata now')
      then w\<lparr>apiDelays := Suc (apiDelays w)\<rparr>
      else w\<lparr>localStorage := (localStorage w)(STORAGE_KEYS_DEPARTMENTS \<mapsto> CacheEntry fdata now'),
             apiDelays := Suc (apiDelays w)\<rparr>)"
  by (simp add: fetchDepartments_def fetchDepartments_try_def simulateApiDelay_def storage_set_def)

lemma fetchDepartments_miss_rejected:
  "cacheHit now (storage_get STORAGE_KEYS_DEPARTMENTS w) = None \<Longrightarrow>
   fetchDepartments (Rejected e) now now' w =
     (\<lparr>success = False, data = [],
       error = Some ''Unable to load departments. Please try again later.'', message = None\<rparr>,
      w\<lparr>apiDelays := Suc (apiDelays w)\<rparr>)"
  by (simp add: fetchDepartments_def fetchDepartments_try_def simulateApiDelay_def)

lemma fetchDepartments_delays:
  "apiDelays (snd (fetchDepartments fetched now now' w)) =
     (if cacheHit now (storage_get STORAGE_KEYS_DEPARTMENTS w) = None
      then Suc (apiDelays w) else apiDelays w)"
  by (cases fetched)
     (auto simp: fetchDepartments_def fetchDepartments_try_def simulateApiDelay_def storage_set_def
        Let_def)

text \<open>
  Claim C1, as stated, has every miss with a successful fetch overwrite the stored
  entry, and every fresh entry answer the call. \<open>Utils.storage.set\<close> catches the
  exception of a store that refuses the write, and \<open>fetchDepartments\<close> drops the
  \<open>false\<close> it returns: with a refusing store the call returns success and the key
  stays absent. \<open>Utils.storage.get\<close> likewise answers \<open>null\<close> when the store refuses
  the read, so a fresh entry that cannot be read is a miss.
\<close>

theorem fetchDepartments_refused_access_counterexample:
  "fetchDepartments mockFetch 1000 1800
     \<lparr>localStorage = Map.empty, setItemThrows = (\<lambda>key v. True),
        getItemThrows = (\<lambda>key. False), apiDelays = 0\<rparr> =
     (\<lparr>success = True, data = MOCK_DEPARTMENTS, error = None, message = None\<rparr>,
      \<lparr>localStorage = Map.empty, setItemThrows = (\<lambda>key v. True),
        getItemThrows = (\<lambda>key. False), apiDelays = 1\<rparr>)
   \<and> apiDelays (snd (fetchDepartments mockFetch 2000 2800
        \<lparr>localStorage = [STORAGE_KEYS_DEPARTMENTS \<mapsto> CacheEntry MOCK_DEPARTMENTS 1800], setItemThrows = (\<lambda>key v. False),
        getItemThrows = (\<lambda>key. True), apiDelays = 0\<rparr>)) = 1"
  by (simp add: fetchDepartments_def fetchDepartments_try_def cacheHit_def storage_get_def
      storage_set_def simulateApiDelay_def mockFetch_def)

text \<open>
  Claim C1, amended. \<open>fetchDepartments\<close> answers from the cache, with no simulated round
  trip and the world unchanged, exactly when the read of the cache key yields an entry
  with \<open>now - timestamp < 5 minutes\<close>. Otherwise it performs the fetch step, and a
  fetch that yields a list returns that list and, when the store accepts the write,
  puts the list with the clock of the write over the entry; when the store refuses the
  write the result is the same and the store is left as it was. A read that the store
  answers, less than 5 minutes after an accepted write, returns the list written; a
  read 5 minutes or more after it fetches again.
\<close>

theorem fetchDepartments_cache:
  "(storage_get STORAGE_KEYS_DEPARTMENTS w = Some (CacheEntry cdata ts)
      \<and> now - ts < 5 * 60 * 1000
     \<longrightarrow> fetchDepartments fetched now now' w =
           (\<lparr>success = True, data = cdata, error = None, message = None\<rparr>, w))
   \<and> ((apiDelays (snd (fetchDepartments fetched now now' w)) = apiDelays w)
        = (\<exists>cd t. storage_get STORAGE_KEYS_DEPARTMENTS w = Some (CacheEntry cd t)
                   \<and> now - t < 5 * 60 * 1000))
   \<and> (\<not> (\<exists>cd t. storage_get STORAGE_KEYS_DEPARTMENTS w = Some (CacheEntry cd t)
                   \<and> now - t < 5 * 60 * 1000)
     \<longrightarrow> fetchDepartments (Resolved fdata) now now' w =
           (\<lparr>success = True, data = fdata, error = None, message = None\<rparr>,
            if setItemThrows w STORAGE_KEYS_DEPARTMENTS (CacheEntry fdata now')
            then w\<lparr>apiDelays := Suc (apiDelays w)\<rparr>
            else w\<lparr>localStorage :=
                     (localStorage w)(STORAGE_KEYS_DEPARTMENTS \<mapsto> CacheEntry fdata now'),
                   apiDelays := Suc (apiDelays w)\<rparr>))
   \<and> (storage_set STORAGE_KEYS_DEPARTMENTS (CacheEntry fdata now') w_s = (True, w_r)
        \<and> \<not> getItemThrows w_r STORAGE_KEYS_DEPARTMENTS
        \<and> now_r - now' < 5 * 60 * 1000
     \<longrightarrow> fetchDepartments fetched now_r now_r' w_r =
           (\<lparr>success = True, data = fdata, error = None, message = None\<rparr>, w_r))
   \<and> (storage_set STORAGE_KEYS_DEPARTMENTS (CacheEntry fdata now') w_s = (True, w_r)
        \<and> now_r - now' \<ge> 5 * 60 * 1000
     \<longrightarrow> fst (fetchDepartments (Resolved fdata_r) now_r now_r' w_r) =
           \<lparr>success = True, data = fdata_r, error = None, message = None\<rparr>
         \<and> apiDelays (snd (fetchDepartments (Resolved fdata_r) now_r now_r' w_r))
             = Suc (apiDelays w_r)
         \<and> (\<not> setItemThrows w_r STORAGE_KEYS_DEPARTMENTS (CacheEntry fdata_r now_r')
              \<longrightarrow> localStorage (snd (fetchDepartments (Resolved fdata_r) now_r now_r' w_r))
                      STORAGE_KEYS_DEPARTMENTS = Some (CacheEntry fdata_r now_r')))"
proof -
  let ?cached = "storage_get STORAGE_KEYS_DEPARTMENTS w"
  have hit: "?cached = Some (CacheEntry cdata ts) \<and> now - ts < 5 * 60 * 1000
     \<longrightarrow> fetchDepartments fetched now now' w =
           (\<lparr>success = True, data = cdata, error = None, message = None\<rparr>, w)"
    using fetchDepartments_hit [of now w cdata fetched now']
    by (auto simp: cacheHit_Some_iff)
  have exactly: "(apiDelays (snd (fetchDepartments fetched now now' w)) = apiDelays w)
        = (\<exists>cd t. ?cached = Some (CacheEntry cd t) \<and> now - t < 5 * 60 * 1000)"
    by (simp add: fetchDepartments_delays cacheHit_None_iff)
  have miss: "\<not> (\<exists>cd t. ?cached = Some (CacheEntry cd t) \<and> now - t < 5 * 60 * 1000)
     \<longrightarrow> fetchDepartments (Resolved fdata) now now' w =
           (\<lparr>success = True, data = fdata, error = None, message = None\<rparr>,
            if setItemThrows w STORAGE_KEYS_DEPARTMENTS (CacheEntry fdata now')
            then w\<lparr>apiDelays := Suc (apiDelays w)\<rparr>
            else w\<lparr>localStorage :=
                     (localStorage w)(STORAGE_KEYS_DEPARTMENTS \<mapsto> CacheEntry fdata now'),
                   apiDelays := Suc (apiDelays w)\<rparr>)"
    using fetchDepartments_miss_resolved [of now w fdata now']
    by (simp add: cacheHit_None_iff)
  have written: "storage_get STORAGE_KEYS_DEPARTMENTS w_r = Some (CacheEntry fdata now')"
    if "storage_set STORAGE_KEYS_DEPARTMENTS (CacheEntry fdata now') w_s = (True, w_r)"
      and "\<not> getItemThrows w_r STORAGE_KEYS_DEPARTMENTS"
    using that by (auto simp: storage_set_def storage_get_def split: if_splits)
  have roundtrip: "storage_set STORAGE_KEYS_DEPARTMENTS (CacheEntry fdata now') w_s = (True, w_r)
        \<and> \<not> getItemThrows w_r STORAGE_KEYS_DEPARTMENTS
        \<and> now_r - now' < 5 * 60 * 1000
     \<longrightarrow> fetchDepartments fetched now_r now_r' w_r =
           (\<lparr>success = True, data = fdata, error = None, message = None\<rparr>, w_r)"
    using fetchDepartments_hit [of now_r w_r fdata fetched now_r'] written
    by (simp add: cacheHit_Some_iff)
  have stale: "cacheHit now_r (storage_get STORAGE_KEYS_DEPARTMENTS w_r) = None"
    if "storage_set STORAGE_KEYS_DEPARTMENTS (CacheEntry fdata now') w_s = (True, w_r)"
      and "now_r - now' \<ge> 5 * 60 * 1000"
    using that
    by (auto simp: storage_set_def storage_get_def cacheHit_def split: if_splits)
  have expiry: "storage_set STORAGE_KEYS_DEPARTMENTS (CacheEntry fdata now') w_s = (True, w_r)
        \<and> now_r - now' \<ge> 5 * 60 * 1000
     \<longrightarrow> fst (fetchDepartments (Resolved fdata_r) now_r now_r' w_r) =
           \<lparr>success = True, data = fdata_r, error = None, message = None\<rparr>
         \<and> apiDelays (snd (fetchDepartments (Resolved fdata_r) now_r now_r' w_r))
             = Suc (apiDelays w_r)
         \<and> (\<not> setItemThrows w_r STORAGE_KEYS_DEPARTMENTS (CacheEntry fdata_r now_r')
              \<longrightarrow> localStorage (snd (fetchDepartments (Resolved fdata_r) now_r now_r' w_r))
                      STORAGE_KEYS_DEPARTMENTS = Some (CacheEntry fdata_r now_r'))"
  proof (intro impI)
    assume a: "storage_set STORAGE_KEYS_DEPARTMENTS (CacheEntry fdata now') w_s = (True, w_r)
        \<and> now_r - now' \<ge> 5 * 60 * 1000"
    then have m: "cacheHit now_r (storage_get STORAGE_KEYS_DEPARTMENTS w_r) = None"
      using stale by simp
    show "fst (fetchDepartments (Resolved fdata_r) now_r now_r' w_r) =
           \<lparr>success = True, data = fdata_r, error = None, message = None\<rparr>
         \<and> apiDelays (snd (fetchDepartments (Resolved fdata_r) now_r now_r' w_r))
             = Suc (apiDelays w_r)
         \<and> (\<not> setItemThrows w_r STORAGE_KEYS_DEPARTMENTS (CacheEntry fdata_r now_r')
              \<longrightarrow> localStorage (snd (fetchDepartments (Resolved fdata_r) now_r now_r' w_r))
                      STORAGE_KEYS_DEPARTMENTS = Some (CacheEntry fdata_r now_r'))"
      by (simp add: fetchDepartments_miss_resolved [OF m])
  qed
  from hit exactly miss roundtrip expiry show ?thesis
    by (intro conjI)
qed

theorem fetchDepartments_cache_witness:
  "fetchDepartments mockFetch 1000 1800 \<lparr>localStorage = Map.empty, setItemThrows = (\<lambda>key v. False),
        getItemThrows = (\<lambda>key. False), apiDelays = 0\<rparr> =
     (\<lparr>success = True, data = MOCK_DEPARTMENTS, error = None, message = None\<rparr>,
      \<lparr>localStorage = [STORAGE_KEYS_DEPARTMENTS \<mapsto> CacheEntry MOCK_DEPARTMENTS 1800], setItemThrows = (\<lambda>key v. False),
        getItemThrows = (\<lambda>key. False), apiDelays = 1\<rparr>)
   \<and> fetchDepartments (Rejected ''offline'') 301799 302000
       \<lparr>localStorage = [STORAGE_KEYS_DEPARTMENTS \<mapsto> CacheEntry MOCK_DEPARTMENTS 1800], setItemThrows = (\<lambda>key v. False),
        getItemThrows = (\<lambda>key. False), apiDelays = 1\<rparr> =
     (\<lparr>success = True, data = MOCK_DEPARTMENTS, error = None, message = None\<rparr>,
      \<lparr>localStorage = [STORAGE_KEYS_DEPARTMENTS \<mapsto> CacheEntry MOCK_DEPARTMENTS 1800], setItemThrows = (\<lambda>key v. False),
        getItemThrows = (\<lambda>key. False), apiDelays = 1\<rparr>)
   \<and> fetchDepartments (Resolved []) 301800 302000
       \<lparr>localStorage = [STORAGE_KEYS_DEPARTMENTS \<mapsto> CacheEntry MOCK_DEPARTMENTS 1800], setItemThrows = (\<lambda>key v. False),
        getItemThrows = (\<lambda>key. False), apiDelays = 1\<rparr> =
     (\<lparr>success = True, data = [], error = None, message = None\<rparr>,
      \<lparr>localStorage = [STORAGE_KEYS_DEPARTMENTS \<mapsto> CacheEntry [] 302000], setItemThrows = (\<lambda>key v. False),
        getItemThrows = (\<lambda>key. False), apiDelays = 2\<rparr>)"
proof -
  let ?w0 = "\<lparr>localStorage = Map.empty, setItemThrows = (\<lambda>key v. False),
        getItemThrows = (\<lambda>key. False), apiDelays = 0\<rparr>"
  let ?w1 = "\<lparr>localStorage = [STORAGE_KEYS_DEPARTMENTS \<mapsto> CacheEntry MOCK_DEPARTMENTS 1800], setItemThrows = (\<lambda>key v. False),
        getItemThrows = (\<lambda>key. False), apiDelays = 1\<rparr>"
  have first: "\<not> (\<exists>cd t. storage_get STORAGE_KEYS_DEPARTMENTS ?w0 = Some (CacheEntry cd t)
                   \<and> 1000 - t < 5 * 60 * 1000)"
    by (simp add: storage_get_def)
  have accepted: "storage_set STORAGE_KEYS_DEPARTMENTS (CacheEntry MOCK_DEPARTMENTS 1800)
      (simulateApiDelay ?w0) = (True, ?w1)"
    by (simp add: storage_set_def simulateApiDelay_def)
  have stale: "\<not> (\<exists>cd t. storage_get STORAGE_KEYS_DEPARTMENTS ?w1 = Some (CacheEntry cd t)
                   \<and> 301800 - t < 5 * 60 * 1000)"
    by (simp add: storage_get_def)
  from first
    fetchDepartments_cache [where w = ?w0 and now = 1000 and now' = 1800
      and fdata = MOCK_DEPARTMENTS]
  have one: "fetchDepartments mockFetch 1000 1800 ?w0 =
     (\<lparr>success = True, data = MOCK_DEPARTMENTS, error = None, message = None\<rparr>, ?w1)"
    by (simp add: mockFetch_def)
  from accepted
    fetchDepartments_cache [where w_s = "simulateApiDelay ?w0" and w_r = ?w1 and now' = 1800
      and fdata = MOCK_DEPARTMENTS and fetched = "Rejected ''offline''"
      and now_r = 301799 and now_r' = 302000]
  have two: "fetchDepartments (Rejected ''offline'') 301799 302000 ?w1 =
     (\<lparr>success = True, data = MOCK_DEPARTMENTS, error = None, message = None\<rparr>, ?w1)"
    by simp
  from stale
    fetchDepartments_cache [where w = ?w1 and now = 301800 and now' = 302000
      and fdata = "[]"]
  have three: "fetchDepartments (Resolved []) 301800 302000 ?w1 =
     (\<lparr>success = True, data = [], error = None, message = None\<rparr>,
      \<lparr>localStorage = [STORAGE_KEYS_DEPARTMENTS \<mapsto> CacheEntry [] 302000], setItemThrows = (\<lambda>key v. False),
        getItemThrows = (\<lambda>key. False), apiDelays = 2\<rparr>)"
    by simp
  from one two three show ?thesis by simp
qed

text \<open>
  Claim C8. When the read of the cache key yields no fresh entry and the fetch step
  throws, \<open>fetchDepartments\<close> returns \<open>success = false\<close> with the user-facing message and
  an empty list, where a fetch that yields the empty list returns \<open>success = true\<close>. The
  exception does not leave the call, the store is not written, and one round trip has
  been made.
\<close>

theorem fetchDepartments_failure:
  assumes "\<not> (\<exists>cd t. storage_get STORAGE_KEYS_DEPARTMENTS w = Some (CacheEntry cd t)
                     \<and> now - t < 5 * 60 * 1000)"
  shows "fetchDepartments (Rejected e) now now' w =
           (\<lparr>success = False, data = [],
             error = Some ''Unable to load departments. Please try again later.'',
             message = None\<rparr>,
            w\<lparr>apiDelays := Suc (apiDelays w)\<rparr>)
         \<and> fst (fetchDepartments (Resolved []) now now' w) =
             \<lparr>success = True, data = [], error = None, message = None\<rparr>"
proof -
  from assms have miss: "cacheHit now (storage_get STORAGE_KEYS_DEPARTMENTS w) = None"
    by (simp add: cacheHit_None_iff)
  show ?thesis
    by (simp add: fetchDepartments_miss_rejected [OF miss] fetchDepartments_miss_resolved [OF miss])
qed

theorem fetchDepartments_failure_witness:
  "fetchDepartments (Rejected ''offline'') 1000 1800 \<lparr>localStorage = Map.empty, setItemThrows = (\<lambda>key v. False),
        getItemThrows = (\<lambda>key. False), apiDelays = 0\<rparr> =
     (\<lparr>success = False, data = [],
       error = Some ''Unable to load departments. Please try again later.'', message = None\<rparr>,
      \<lparr>localStorage = Map.empty, setItemThrows = (\<lambda>key v. False),
        getItemThrows = (\<lambda>key. False), apiDelays = 1\<rparr>)
   \<and> success (fst (fetchDepartments (Resolved []) 1000 1800
                    \<lparr>localStorage = Map.empty, setItemThrows = (\<lambda>key v. False),
        getItemThrows = (\<lambda>key. False), apiDelays = 0\<rparr>))"
proof -
  have miss: "\<not> (\<exists>cd t. storage_get STORAGE_KEYS_DEPARTMENTS
                         \<lparr>localStorage = Map.empty, setItemThrows = (\<lambda>key v. False),
        getItemThrows = (\<lambda>key. False), apiDelays = 0\<rparr>
                       = Some (CacheEntry cd t) \<and> 1000 - t < 5 * 60 * 1000)"
    by (simp add: storage_get_def)
  from fetchDepartments_failure [OF miss, of "''offline''" 1800] show ?thesis
    by simp
qed

section \<open>The mock login\<close>

lemma loginUser_valid:
  assumes "3 \<le> length (username creds)" "6 \<le> length (password creds)" "department creds \<noteq> []"
  shows "loginUser creds now isoNow w =
    (\<lparr>success = True, data = Some \<lparr>user_id = now, user_username = username creds,
             user_department = department creds,
             user_name = toUpperCase (take 1 (username creds))
                           @ codeUnits (drop 1 (username creds)) @ codeUnits '' User'',
             email = username creds @ ''@megaproject.com'',
             role = ''user'', permissions = [''read'', ''write''], lastLogin = isoNow\<rparr>, error = None,
      message = Some ''Login successful! Redirecting to dashboard...''\<rparr>,
     w\<lparr>localStorage :=
          (let m = (if rememberMe creds
                        \<and> \<not> setItemThrows w STORAGE_KEYS_REMEMBER_ME
                              (RememberedLogin (username creds) (department creds))
                    then (localStorage w)(STORAGE_KEYS_REMEMBER_ME \<mapsto>
                           RememberedLogin (username creds) (department creds))
                    else localStorage w)
           in if setItemThrows w STORAGE_KEYS_USER_SESSION (SessionData \<lparr>user_id = now, user_username = username creds,
             user_department = department creds,
             user_name = toUpperCase (take 1 (username creds))
                           @ codeUnits (drop 1 (username creds)) @ codeUnits '' User'',
             email = username creds @ ''@megaproject.com'',
             role = ''user'', permissions = [''read'', ''write''], lastLogin = isoNow\<rparr>)
              then m
              else m(STORAGE_KEYS_USER_SESSION \<mapsto> SessionData \<lparr>user_id = now, user_username = username creds,
             user_department = department creds,
             user_name = toUpperCase (take 1 (username creds))
                           @ codeUnits (drop 1 (username creds)) @ codeUnits '' User'',
             email = username creds @ ''@megaproject.com'',
             role = ''user'', permissions = [''read'', ''write''], lastLogin = isoNow\<rparr>)),
        apiDelays := Suc (apiDelays w)\<rparr>)"
proof -
  from assms have "username creds \<noteq> []" "password creds \<noteq> []"
    by auto
  with assms show ?thesis
    by (simp add: loginUser_def loginUser_try_def simulateApiDelay_def storage_set_def Let_def)
qed

lemma loginUser_invalid:
  assumes "\<not> (3 \<le> length (username creds) \<and> 6 \<le> length (password creds) \<and> department creds \<noteq> [])"
  shows "loginUser creds now isoNow w =
    (\<lparr>success = False, data = None,
      error = Some (if username creds = [] \<or> password creds = [] \<or> department creds = []
                    then ''All fields are required''
                    else if length (username creds) < 3
                    then ''Username must be at least 3 characters''
                    else ''Password must be at least 6 characters''),
      message = None\<rparr>,
     w\<lparr>apiDelays := Suc (apiDelays w)\<rparr>)"
  using assms
  by (auto simp: loginUser_def loginUser_try_def simulateApiDelay_def Let_def)

lemma loginUser_success_iff:
  "success (fst (loginUser creds now isoNow w)) \<longleftrightarrow>
     3 \<le> length (username creds) \<and> 6 \<le> length (password creds) \<and> department creds \<noteq> []"
  using loginUser_valid [of creds now isoNow w] loginUser_invalid [of creds now isoNow w]
  by (cases "3 \<le> length (username creds) \<and> 6 \<le> length (password creds) \<and> department creds \<noteq> []")
     (simp_all del: One_nat_def)

lemma keys_distinct:
  "STORAGE_KEYS_REMEMBER_ME \<noteq> STORAGE_KEYS_USER_SESSION"
  "STORAGE_KEYS_DEPARTMENTS \<noteq> STORAGE_KEYS_USER_SESSION"
  "STORAGE_KEYS_DEPARTMENTS \<noteq> STORAGE_KEYS_REMEMBER_ME"
  "STORAGE_KEYS_USER_SESSION \<noteq> STORAGE_KEYS_REMEMBER_ME"
  "STORAGE_KEYS_USER_SESSION \<noteq> STORAGE_KEYS_DEPARTMENTS"
  "STORAGE_KEYS_REMEMBER_ME \<noteq> STORAGE_KEYS_DEPARTMENTS"
  by (simp_all add: STORAGE_KEYS_REMEMBER_ME_def STORAGE_KEYS_USER_SESSION_def STORAGE_KEYS_DEPARTMENTS_def)

text \<open>
  Claim C5, as stated, has the session record persisted on every success path.
  \<open>loginUser\<close> drops the \<open>false\<close> that \<open>Utils.storage.set\<close> returns when the store
  refuses the write: with a refusing store the login of \<open>alice\<close> succeeds and the
  session key stays absent.
\<close>

theorem loginUser_refused_write_counterexample:
  "fst (loginUser \<lparr>username = ''alice'', password = ''abcdef'', department = ''hr'', rememberMe = False\<rparr>
        1700000000000 ''2023-11-14T22:13:20.000Z''
        \<lparr>localStorage = Map.empty, setItemThrows = (\<lambda>key v. True),
        getItemThrows = (\<lambda>key. False), apiDelays = 0\<rparr>) =
     \<lparr>success = True, data = Some \<lparr>user_id = 1700000000000, user_username = ''alice'', user_department = ''hr'',
          user_name = codeUnits ''Alice User'', email = ''alice@megaproject.com'', role = ''user'',
          permissions = [''read'', ''write''], lastLogin = ''2023-11-14T22:13:20.000Z''\<rparr>, error = None,
       message = Some ''Login successful! Redirecting to dashboard...''\<rparr>
   \<and> localStorage (snd (loginUser \<lparr>username = ''alice'', password = ''abcdef'', department = ''hr'', rememberMe = False\<rparr>
        1700000000000 ''2023-11-14T22:13:20.000Z''
        \<lparr>localStorage = Map.empty, setItemThrows = (\<lambda>key v. True),
        getItemThrows = (\<lambda>key. False), apiDelays = 0\<rparr>))
       STORAGE_KEYS_USER_SESSION = None"
  by (simp add: loginUser_def loginUser_try_def simulateApiDelay_def storage_set_def Let_def
      str_defs)

text \<open>
  Claim C5, amended. For credentials with a username of at least 3 characters, a
  password of at least 6 characters and a non-empty department, \<open>loginUser\<close> returns a
  success result whose user has the department of the credentials and the email
  \<open>username@megaproject.com\<close>; whatever the remember-me flag, the session key of the
  store holds that user when the store accepts the write, and is left as it was when
  the store refuses it.
\<close>

theorem loginUser_success:
  assumes "3 \<le> length (username creds)" and "6 \<le> length (password creds)"
    and "department creds \<noteq> []"
  shows "\<exists>u. fst (loginUser creds now isoNow w) =
               \<lparr>success = True, data = Some u, error = None,
                message = Some ''Login successful! Redirecting to dashboard...''\<rparr>
             \<and> user_department u = department creds
             \<and> email u = username creds @ ''@megaproject.com''
             \<and> localStorage (snd (loginUser creds now isoNow w)) STORAGE_KEYS_USER_SESSION
                 = (if setItemThrows w STORAGE_KEYS_USER_SESSION (SessionData u)
                    then localStorage w STORAGE_KEYS_USER_SESSION
                    else Some (SessionData u))"
proof -
  let ?u = "\<lparr>user_id = now, user_username = username creds,
             user_department = department creds,
             user_name = toUpperCase (take 1 (username creds))
                           @ codeUnits (drop 1 (username creds)) @ codeUnits '' User'',
             email = username creds @ ''@megaproject.com'',
             role = ''user'', permissions = [''read'', ''write''], lastLogin = isoNow\<rparr>"
  note run = loginUser_valid [OF assms, of now isoNow w]
  have returned: "fst (loginUser creds now isoNow w) =
      \<lparr>success = True, data = Some ?u, error = None,
       message = Some ''Login successful! Redirecting to dashboard...''\<rparr>"
    by (simp add: run)
  have persisted: "localStorage (snd (loginUser creds now isoNow w)) STORAGE_KEYS_USER_SESSION
      = (if setItemThrows w STORAGE_KEYS_USER_SESSION (SessionData ?u)
         then localStorage w STORAGE_KEYS_USER_SESSION
         else Some (SessionData ?u))"
    by (simp add: run Let_def keys_distinct)
  from returned persisted show ?thesis
    by (intro exI [of _ ?u]) simp
qed

theorem loginUser_success_witness:
  "fst (loginUser \<lparr>username = ''alice'', password = ''abcdef'', department = ''hr'', rememberMe = False\<rparr>
        1700000000000 ''2023-11-14T22:13:20.000Z''
        \<lparr>localStorage = Map.empty, setItemThrows = (\<lambda>key v. False),
        getItemThrows = (\<lambda>key. False), apiDelays = 0\<rparr>) =
     \<lparr>success = True, data = Some \<lparr>user_id = 1700000000000, user_username = ''alice'', user_department = ''hr'',
          user_name = codeUnits ''Alice User'', email = ''alice@megaproject.com'', role = ''user'',
          permissions = [''read'', ''write''], lastLogin = ''2023-11-14T22:13:20.000Z''\<rparr>, error = None,
       message = Some ''Login successful! Redirecting to dashboard...''\<rparr>
   \<and> localStorage (snd (loginUser \<lparr>username = ''alice'', password = ''abcdef'', department = ''hr'', rememberMe = False\<rparr>
        1700000000000 ''2023-11-14T22:13:20.000Z''
        \<lparr>localStorage = Map.empty, setItemThrows = (\<lambda>key v. False),
        getItemThrows = (\<lambda>key. False), apiDelays = 0\<rparr>))
       STORAGE_KEYS_USER_SESSION =
       Some (SessionData
         \<lparr>user_id = 1700000000000, user_username = ''alice'', user_department = ''hr'',
          user_name = codeUnits ''Alice User'', email = ''alice@megaproject.com'', role = ''user'',
          permissions = [''read'', ''write''], lastLogin = ''2023-11-14T22:13:20.000Z''\<rparr>)"
  using loginUser_success [of "\<lparr>username = ''alice'', password = ''abcdef'', department = ''hr'', rememberMe = False\<rparr>"
      1700000000000 "''2023-11-14T22:13:20.000Z''"
      "\<lparr>localStorage = Map.empty, setItemThrows = (\<lambda>key v. False),
        getItemThrows = (\<lambda>key. False), apiDelays = 0\<rparr>"]
  by (simp add: loginUser_def loginUser_try_def simulateApiDelay_def storage_set_def
      Let_def str_defs)

text \<open>
  Claim C6, as stated, has the remembered-login key hold the credentials after every
  successful login with remember-me set. With a store that refuses the write of that
  key the login still succeeds, and the key holds what it held.
\<close>

theorem loginUser_remember_refused_counterexample:
  "success (fst (loginUser \<lparr>username = ''alice'', password = ''abcdef'', department = ''hr'', rememberMe = True\<rparr>
        1700000000000 ''2023-11-14T22:13:20.000Z''
        \<lparr>localStorage = [STORAGE_KEYS_REMEMBER_ME \<mapsto> RememberedLogin ''bob'' ''it''], setItemThrows = (\<lambda>key v. key = STORAGE_KEYS_REMEMBER_ME),
        getItemThrows = (\<lambda>key. False), apiDelays = 0\<rparr>))
   \<and> localStorage (snd (loginUser \<lparr>username = ''alice'', password = ''abcdef'', department = ''hr'', rememberMe = True\<rparr>
        1700000000000 ''2023-11-14T22:13:20.000Z''
        \<lparr>localStorage = [STORAGE_KEYS_REMEMBER_ME \<mapsto> RememberedLogin ''bob'' ''it''], setItemThrows = (\<lambda>key v. key = STORAGE_KEYS_REMEMBER_ME),
        getItemThrows = (\<lambda>key. False), apiDelays = 0\<rparr>))
       STORAGE_KEYS_REMEMBER_ME = Some (RememberedLogin ''bob'' ''it'')"
  by (simp add: loginUser_def loginUser_try_def simulateApiDelay_def storage_set_def Let_def
      keys_distinct)

text \<open>
  Claim C6, amended. After a successful login with remember-me set, the
  remembered-login key holds the username and the department of the credentials, and
  nothing else, when the store accepts the write, and a read of the key that the store
  answers returns them; when the store refuses the write the key is left as it was.
  After a successful login with remember-me unset, every key but the session key holds
  and reads as before the call, the remembered-login key among them.
\<close>

theorem loginUser_remember:
  assumes "success (fst (loginUser creds now isoNow w))"
  shows "(rememberMe creds
            \<and> \<not> setItemThrows w STORAGE_KEYS_REMEMBER_ME
                  (RememberedLogin (username creds) (department creds)) \<longrightarrow>
            localStorage (snd (loginUser creds now isoNow w)) STORAGE_KEYS_REMEMBER_ME
              = Some (RememberedLogin (username creds) (department creds))
            \<and> (\<not> getItemThrows w STORAGE_KEYS_REMEMBER_ME \<longrightarrow>
                 storage_get STORAGE_KEYS_REMEMBER_ME (snd (loginUser creds now isoNow w))
                   = Some (RememberedLogin (username creds) (department creds))))
         \<and> (rememberMe creds
            \<and> setItemThrows w STORAGE_KEYS_REMEMBER_ME
                  (RememberedLogin (username creds) (department creds)) \<longrightarrow>
            localStorage (snd (loginUser creds now isoNow w)) STORAGE_KEYS_REMEMBER_ME
              = localStorage w STORAGE_KEYS_REMEMBER_ME)
         \<and> (\<not> rememberMe creds \<longrightarrow>
            (\<forall>key. key \<noteq> STORAGE_KEYS_USER_SESSION \<longrightarrow>
               localStorage (snd (loginUser creds now isoNow w)) key = localStorage w key
               \<and> storage_get key (snd (loginUser creds now isoNow w)) = storage_get key w)
            \<and> localStorage (snd (loginUser creds now isoNow w)) STORAGE_KEYS_REMEMBER_ME
                 = localStorage w STORAGE_KEYS_REMEMBER_ME
            \<and> storage_get STORAGE_KEYS_REMEMBER_ME (snd (loginUser creds now isoNow w))
                 = storage_get STORAGE_KEYS_REMEMBER_ME w)"
proof -
  from assms have ok: "3 \<le> length (username creds)" "6 \<le> length (password creds)"
      "department creds \<noteq> []"
    by (simp_all add: loginUser_success_iff)
  show ?thesis
    by (simp add: loginUser_valid [OF ok] storage_get_def keys_distinct Let_def)
qed

theorem loginUser_remember_witness:
  "storage_get STORAGE_KEYS_REMEMBER_ME (snd (loginUser \<lparr>username = ''alice'', password = ''abcdef'', department = ''hr'', rememberMe = True\<rparr>
        1700000000000 ''2023-11-14T22:13:20.000Z''
        \<lparr>localStorage = [STORAGE_KEYS_REMEMBER_ME \<mapsto> RememberedLogin ''bob'' ''it''], setItemThrows = (\<lambda>key v. False),
        getItemThrows = (\<lambda>key. False), apiDelays = 0\<rparr>))
     = Some (RememberedLogin ''alice'' ''hr'')
   \<and> storage_get STORAGE_KEYS_REMEMBER_ME (snd (loginUser \<lparr>username = ''alice'', password = ''abcdef'', department = ''hr'', rememberMe = False\<rparr>
        1700000000000 ''2023-11-14T22:13:20.000Z''
        \<lparr>localStorage = [STORAGE_KEYS_REMEMBER_ME \<mapsto> RememberedLogin ''bob'' ''it''], setItemThrows = (\<lambda>key v. False),
        getItemThrows = (\<lambda>key. False), apiDelays = 0\<rparr>))
     = Some (RememberedLogin ''bob'' ''it'')"
proof -
  let ?w = "\<lparr>localStorage = [STORAGE_KEYS_REMEMBER_ME \<mapsto> RememberedLogin ''bob'' ''it''], setItemThrows = (\<lambda>key v. False),
        getItemThrows = (\<lambda>key. False), apiDelays = 0\<rparr>"
  let ?yes = "\<lparr>username = ''alice'', password = ''abcdef'', department = ''hr'', rememberMe = True\<rparr>"
  let ?no = "\<lparr>username = ''alice'', password = ''abcdef'', department = ''hr'', rememberMe = False\<rparr>"
  have yes: "success (fst (loginUser ?yes 1700000000000 ''2023-11-14T22:13:20.000Z'' ?w))"
    by (simp add: loginUser_def loginUser_try_def Let_def)
  have no: "success (fst (loginUser ?no 1700000000000 ''2023-11-14T22:13:20.000Z'' ?w))"
    by (simp add: loginUser_def loginUser_try_def Let_def)
  from loginUser_remember [OF yes] loginUser_remember [OF no] show ?thesis
    by (simp add: storage_get_def)
qed

text \<open>
  Claim C7, as stated, promises the username-too-short message for every non-empty
  username shorter than 3 characters. The check for an empty field comes first: with
  the username \<open>ab\<close> and an empty password the message is
  \<open>All fields are required\<close>.
\<close>

theorem loginUser_short_username_counterexample:
  "username \<lparr>username = ''ab'', password = [], department = ''hr'', rememberMe = False\<rparr> \<noteq> []
   \<and> length (username \<lparr>username = ''ab'', password = [], department = ''hr'', rememberMe = False\<rparr>) < 3
   \<and> fst (loginUser \<lparr>username = ''ab'', password = [], department = ''hr'', rememberMe = False\<rparr>
        1700000000000 ''2023-11-14T22:13:20.000Z''
        \<lparr>localStorage = Map.empty, setItemThrows = (\<lambda>key v. False),
        getItemThrows = (\<lambda>key. False), apiDelays = 0\<rparr>) =
       \<lparr>success = False, data = None, error = Some ''All fields are required'', message = None\<rparr>
   \<and> ''All fields are required'' \<noteq> ''Username must be at least 3 characters''"
  by (simp add: loginUser_def loginUser_try_def Let_def)

text \<open>
  Claim C7, amended. For every credentials value whose username is non-empty and
  shorter than 3 characters, \<open>loginUser\<close> returns an error result with null data and
  writes no key of the store, the session key and the remembered-login key included;
  the message is the username-too-short one when the password and the department are
  non-empty, and \<open>All fields are required\<close> when one of them is empty.
\<close>

theorem loginUser_short_username:
  assumes "username creds \<noteq> []" and "length (username creds) < 3"
  shows "loginUser creds now isoNow w =
           (\<lparr>success = False, data = None,
             error = Some (if password creds = [] \<or> department creds = []
                           then ''All fields are required''
                           else ''Username must be at least 3 characters''),
             message = None\<rparr>,
            w\<lparr>apiDelays := Suc (apiDelays w)\<rparr>)
         \<and> localStorage (snd (loginUser creds now isoNow w)) = localStorage w"
proof -
  from assms have "\<not> (3 \<le> length (username creds) \<and> 6 \<le> length (password creds)
      \<and> department creds \<noteq> [])"
    by simp
  from loginUser_invalid [OF this, of now isoNow w] assms show ?thesis
    by simp
qed

theorem loginUser_short_username_witness:
  "loginUser \<lparr>username = ''ab'', password = ''abcdef'', department = ''hr'', rememberMe = True\<rparr>
        1700000000000 ''2023-11-14T22:13:20.000Z''
        \<lparr>localStorage = Map.empty, setItemThrows = (\<lambda>key v. False),
        getItemThrows = (\<lambda>key. False), apiDelays = 0\<rparr> =
     (\<lparr>success = False, data = None,
       error = Some ''Username must be at least 3 characters'', message = None\<rparr>,
      \<lparr>localStorage = Map.empty, setItemThrows = (\<lambda>key v. False),
        getItemThrows = (\<lambda>key. False), apiDelays = 1\<rparr>)"
proof -
  have a: "username \<lparr>username = ''ab'', password = ''abcdef'', department = ''hr'', rememberMe = True\<rparr> \<noteq> []"
    and b: "length (username \<lparr>username = ''ab'', password = ''abcdef'', department = ''hr'', rememberMe = True\<rparr>) < 3"
    by simp_all
  from loginUser_short_username [OF a b, of 1700000000000 "''2023-11-14T22:13:20.000Z''"
      "\<lparr>localStorage = Map.empty, setItemThrows = (\<lambda>key v. False),
        getItemThrows = (\<lambda>key. False), apiDelays = 0\<rparr>"]
  show ?thesis by simp
qed

text \<open>
  Claim C9, as stated, has \<open>loginUser\<close> reject a department that matches no department
  record. \<open>loginUser\<close> never consults the records: the department \<open>no-such-dept\<close>,
  which is the id of no entry of the directory, logs in.
\<close>

theorem loginUser_unknown_department_counterexample:
  "''no-such-dept'' \<notin> set (map dept_id MOCK_DEPARTMENTS)
   \<and> fst (loginUser \<lparr>username = ''alice'', password = ''abcdef'', department = ''no-such-dept'', rememberMe = False\<rparr>
        1700000000000 ''2023-11-14T22:13:20.000Z''
        \<lparr>localStorage = [STORAGE_KEYS_DEPARTMENTS \<mapsto> CacheEntry MOCK_DEPARTMENTS 1699999990000], setItemThrows = (\<lambda>key v. False),
        getItemThrows = (\<lambda>key. False), apiDelays = 1\<rparr>) =
       \<lparr>success = True, data = Some \<lparr>user_id = 1700000000000, user_username = ''alice'', user_department = ''no-such-dept'',
          user_name = codeUnits ''Alice User'', email = ''alice@megaproject.com'', role = ''user'',
          permissions = [''read'', ''write''], lastLogin = ''2023-11-14T22:13:20.000Z''\<rparr>, error = None,
       message = Some ''Login successful! Redirecting to dashboard...''\<rparr>"
  by (simp add: loginUser_def loginUser_try_def Let_def MOCK_DEPARTMENTS_def
      simulateApiDelay_def storage_set_def str_defs)

text \<open>
  Claim C9, amended. \<open>loginUser\<close> requires the department only to be non-empty: an
  empty department gives the error \<open>All fields are required\<close>, and a non-empty
  department that is the id of no record of a directory, with a username of at least 3
  and a password of at least 6 characters, gives a success result whose user carries
  that department.
\<close>

theorem loginUser_department_unchecked:
  "(department creds = [] \<longrightarrow>
      fst (loginUser creds now isoNow w) =
        \<lparr>success = False, data = None, error = Some ''All fields are required'', message = None\<rparr>)
   \<and> (department creds \<noteq> [] \<and> department creds \<notin> set (map dept_id directory)
        \<and> 3 \<le> length (username creds) \<and> 6 \<le> length (password creds) \<longrightarrow>
      success (fst (loginUser creds now isoNow w))
      \<and> map_option user_department (data (fst (loginUser creds now isoNow w)))
          = Some (department creds))"
proof (intro conjI impI)
  assume "department creds = []"
  then have "\<not> (3 \<le> length (username creds) \<and> 6 \<le> length (password creds)
      \<and> department creds \<noteq> [])"
    by simp
  from loginUser_invalid [OF this, of now isoNow w] \<open>department creds = []\<close>
  show "fst (loginUser creds now isoNow w) =
        \<lparr>success = False, data = None, error = Some ''All fields are required'', message = None\<rparr>"
    by simp
next
  assume a: "department creds \<noteq> [] \<and> department creds \<notin> set (map dept_id directory)
        \<and> 3 \<le> length (username creds) \<and> 6 \<le> length (password creds)"
  then have ok: "3 \<le> length (username creds)" "6 \<le> length (password creds)"
      "department creds \<noteq> []"
    by simp_all
  show "success (fst (loginUser creds now isoNow w))"
    by (simp add: loginUser_valid [OF ok])
  show "map_option user_department (data (fst (loginUser creds now isoNow w)))
          = Some (department creds)"
    by (simp add: loginUser_valid [OF ok])
qed

theorem loginUser_department_unchecked_witness:
  "fst (loginUser \<lparr>username = ''alice'', password = ''abcdef'', department = [], rememberMe = False\<rparr>
        1700000000000 ''2023-11-14T22:13:20.000Z''
        \<lparr>localStorage = Map.empty, setItemThrows = (\<lambda>key v. False),
        getItemThrows = (\<lambda>key. False), apiDelays = 0\<rparr>) =
     \<lparr>success = False, data = None, error = Some ''All fields are required'', message = None\<rparr>
   \<and> success (fst (loginUser \<lparr>username = ''alice'', password = ''abcdef'', department = ''no-such-dept'', rememberMe = True\<rparr>
        1700000000000 ''2023-11-14T22:13:20.000Z''
        \<lparr>localStorage = Map.empty, setItemThrows = (\<lambda>key v. False),
        getItemThrows = (\<lambda>key. False), apiDelays = 0\<rparr>))
   \<and> map_option user_department (data (fst (loginUser \<lparr>username = ''alice'', password = ''abcdef'', department = ''no-such-dept'', rememberMe = True\<rparr>
        1700000000000 ''2023-11-14T22:13:20.000Z''
        \<lparr>localStorage = Map.empty, setItemThrows = (\<lambda>key v. False),
        getItemThrows = (\<lambda>key. False), apiDelays = 0\<rparr>)))
       = Some ''no-such-dept''"
  using
    loginUser_department_unchecked [where
      creds = "\<lparr>username = ''alice'', password = ''abcdef'', department = [], rememberMe = False\<rparr>"
      and now = 1700000000000 and isoNow = "''2023-11-14T22:13:20.000Z''"
      and w = "\<lparr>localStorage = Map.empty, setItemThrows = (\<lambda>key v. False),
        getItemThrows = (\<lambda>key. False), apiDelays = 0\<rparr>"]
    loginUser_department_unchecked [where
      creds = "\<lparr>username = ''alice'', password = ''abcdef'', department = ''no-such-dept'', rememberMe = True\<rparr>"
      and directory = MOCK_DEPARTMENTS and now = 1700000000000
      and isoNow = "''2023-11-14T22:13:20.000Z''"
      and w = "\<lparr>localStorage = Map.empty, setItemThrows = (\<lambda>key v. False),
        getItemThrows = (\<lambda>key. False), apiDelays = 0\<rparr>"]
  by (simp add: MOCK_DEPARTMENTS_def)

section \<open>The form validator\<close>

lemma dropWhile_all_iff: "(\<forall>x \<in> set (dropWhile P s). P x) \<longleftrightarrow> (\<forall>x \<in> set s. P x)"
  by (induction s) auto

lemma trim_Nil_iff: "trim s = [] \<longleftrightarrow> (\<forall>c \<in> set s. isWhiteSpace c)"
  by (simp add: trim_def dropWhile_eq_Nil_conv dropWhile_all_iff)

text \<open>
  Claim C10. \<open>loginUser\<close> measures the password as it is given. With a username of at
  least 3 characters, a non-empty department and a non-empty password that is all
  white space, the raw length alone decides: at 6 characters or more the login
  succeeds, with the user built from the credentials and handed to the session key,
  and below 6 it fails with the password-too-short message. \<open>validateField\<close> on a
  password control holding the same value trims it and answers invalid,
  \<open>Password is required\<close>, at every length.
\<close>

theorem loginUser_blank_password:
  assumes "3 \<le> length (username creds)" and "department creds \<noteq> []"
    and "password creds \<noteq> []" and "\<forall>c \<in> set (password creds). isWhiteSpace c"
    and "fieldKind f = ''password''" and "field_value f = password creds"
  shows "fst (loginUser creds now isoNow w) =
           (if 6 \<le> length (password creds)
            then \<lparr>success = True, data = Some \<lparr>user_id = now, user_username = username creds,
             user_department = department creds,
             user_name = toUpperCase (take 1 (username creds))
                           @ codeUnits (drop 1 (username creds)) @ codeUnits '' User'',
             email = username creds @ ''@megaproject.com'',
             role = ''user'', permissions = [''read'', ''write''], lastLogin = isoNow\<rparr>, error = None,
                  message = Some ''Login successful! Redirecting to dashboard...''\<rparr>
            else \<lparr>success = False, data = None,
                  error = Some ''Password must be at least 6 characters'', message = None\<rparr>)
         \<and> (6 \<le> length (password creds) \<longrightarrow>
              localStorage (snd (loginUser creds now isoNow w)) STORAGE_KEYS_USER_SESSION
                = (if setItemThrows w STORAGE_KEYS_USER_SESSION (SessionData \<lparr>user_id = now, user_username = username creds,
             user_department = department creds,
             user_name = toUpperCase (take 1 (username creds))
                           @ codeUnits (drop 1 (username creds)) @ codeUnits '' User'',
             email = username creds @ ''@megaproject.com'',
             role = ''user'', permissions = [''read'', ''write''], lastLogin = isoNow\<rparr>)
                   then localStorage w STORAGE_KEYS_USER_SESSION
                   else Some (SessionData \<lparr>user_id = now, user_username = username creds,
             user_department = department creds,
             user_name = toUpperCase (take 1 (username creds))
                           @ codeUnits (drop 1 (username creds)) @ codeUnits '' User'',
             email = username creds @ ''@megaproject.com'',
             role = ''user'', permissions = [''read'', ''write''], lastLogin = isoNow\<rparr>)))
         \<and> (length (password creds) < 6 \<longrightarrow>
              localStorage (snd (loginUser creds now isoNow w)) = localStorage w)
         \<and> validateField (Some f) = \<lparr>isValid = False, errorMessage = ''Password is required''\<rparr>"
proof -
  from assms(4) have "trim (password creds) = []"
    by (simp add: trim_Nil_iff)
  with assms(5,6) have form: "validateField (Some f) =
      \<lparr>isValid = False, errorMessage = ''Password is required''\<rparr>"
    by (simp add: validateField_def)
  show ?thesis
  proof (cases "6 \<le> length (password creds)")
    case True
    note run = loginUser_valid [OF assms(1) True assms(2), of now isoNow w]
    from True form show ?thesis
      by (simp add: run Let_def keys_distinct)
  next
    case False
    then have "\<not> (3 \<le> length (username creds) \<and> 6 \<le> length (password creds)
        \<and> department creds \<noteq> [])"
      by simp
    note run = loginUser_invalid [OF this, of now isoNow w]
    from assms(1) have "username creds \<noteq> []"
      by auto
    with False form assms(1,2,3) show ?thesis
      by (simp add: run)
  qed
qed

theorem loginUser_blank_password_witness:
  "fst (loginUser \<lparr>username = ''alice'', password = ''      '', department = ''hr'', rememberMe = False\<rparr>
        1700000000000 ''2023-11-14T22:13:20.000Z''
        \<lparr>localStorage = Map.empty, setItemThrows = (\<lambda>key v. False),
        getItemThrows = (\<lambda>key. False), apiDelays = 0\<rparr>) =
     \<lparr>success = True, data = Some \<lparr>user_id = 1700000000000, user_username = ''alice'', user_department = ''hr'',
          user_name = codeUnits ''Alice User'', email = ''alice@megaproject.com'', role = ''user'',
          permissions = [''read'', ''write''], lastLogin = ''2023-11-14T22:13:20.000Z''\<rparr>, error = None,
       message = Some ''Login successful! Redirecting to dashboard...''\<rparr>
   \<and> localStorage (snd (loginUser \<lparr>username = ''alice'', password = ''      '', department = ''hr'', rememberMe = False\<rparr>
        1700000000000 ''2023-11-14T22:13:20.000Z''
        \<lparr>localStorage = Map.empty, setItemThrows = (\<lambda>key v. False),
        getItemThrows = (\<lambda>key. False), apiDelays = 0\<rparr>))
       STORAGE_KEYS_USER_SESSION = Some (SessionData
         \<lparr>user_id = 1700000000000, user_username = ''alice'', user_department = ''hr'',
          user_name = codeUnits ''Alice User'', email = ''alice@megaproject.com'', role = ''user'',
          permissions = [''read'', ''write''], lastLogin = ''2023-11-14T22:13:20.000Z''\<rparr>)
   \<and> validateField (Some \<lparr>field_type = ''password'', tagName = ''INPUT'', field_value = ''      ''\<rparr>)
       = \<lparr>isValid = False, errorMessage = ''Password is required''\<rparr>
   \<and> fst (loginUser \<lparr>username = ''alice'', password = ''     '', department = ''hr'', rememberMe = False\<rparr>
        1700000000000 ''2023-11-14T22:13:20.000Z''
        \<lparr>localStorage = Map.empty, setItemThrows = (\<lambda>key v. False),
        getItemThrows = (\<lambda>key. False), apiDelays = 0\<rparr>) =
       \<lparr>success = False, data = None,
        error = Some ''Password must be at least 6 characters'', message = None\<rparr>
   \<and> validateField (Some \<lparr>field_type = ''password'', tagName = ''INPUT'', field_value = ''     ''\<rparr>)
       = \<lparr>isValid = False, errorMessage = ''Password is required''\<rparr>"
proof -
  let ?six = "\<lparr>username = ''alice'', password = ''      '', department = ''hr'', rememberMe = False\<rparr>"
  let ?five = "\<lparr>username = ''alice'', password = ''     '', department = ''hr'', rememberMe = False\<rparr>"
  let ?f = "\<lparr>field_type = ''password'', tagName = ''INPUT'', field_value = ''      ''\<rparr>"
  let ?g = "\<lparr>field_type = ''password'', tagName = ''INPUT'', field_value = ''     ''\<rparr>"
  let ?w = "\<lparr>localStorage = Map.empty, setItemThrows = (\<lambda>key v. False),
        getItemThrows = (\<lambda>key. False), apiDelays = 0\<rparr>"
  have u: "3 \<le> length (username ?six)" and d: "department ?six \<noteq> []"
    and p: "password ?six \<noteq> []"
    and u': "3 \<le> length (username ?five)" and d': "department ?five \<noteq> []"
    and p': "password ?five \<noteq> []"
    by simp_all
  have blank: "\<forall>c \<in> set (password ?six). isWhiteSpace c"
    and blank': "\<forall>c \<in> set (password ?five). isWhiteSpace c"
    by (simp_all add: isWhiteSpace_def whiteSpace_def)
  have k: "fieldKind ?f = ''password''" and v: "field_value ?f = password ?six"
    and k': "fieldKind ?g = ''password''" and v': "field_value ?g = password ?five"
    by (simp_all add: fieldKind_def)
  from loginUser_blank_password [OF u d p blank k v, of 1700000000000 "''2023-11-14T22:13:20.000Z''" ?w]
    loginUser_blank_password [OF u' d' p' blank' k' v', of 1700000000000 "''2023-11-14T22:13:20.000Z''" ?w]
  show ?thesis
    by (simp add: str_defs)
qed

text \<open>
  Claim C4, as stated, measures a password as it is typed: empty or not, and its
  length. \<open>validateField\<close> trims the value of every control first. The password
  \<open>abcde\<close> followed by a space is non-empty and 6 characters long, and is answered
  invalid, too short.
\<close>

theorem validateField_untrimmed_counterexample:
  "fieldKind \<lparr>field_type = ''password'', tagName = ''INPUT'', field_value = ''abcde ''\<rparr> = ''password''
   \<and> ''abcde '' \<noteq> []
   \<and> \<not> length ''abcde '' < 6
   \<and> validateField (Some \<lparr>field_type = ''password'', tagName = ''INPUT'', field_value = ''abcde ''\<rparr>)
       = \<lparr>isValid = False, errorMessage = ''Password must be at least 6 characters''\<rparr>"
  by (simp add: validateField_def fieldKind_def str_defs)

text \<open>
  Claim C4, amended. \<open>validateField\<close> applies each rule to the trimmed value. A text
  control is invalid with the required message when the trimmed value is empty and with
  the too-short message when it is shorter than 3; a password control likewise with its
  own messages and the bound 6; a selection control is invalid with its required
  message when the trimmed value is empty; every other case is valid.
\<close>

theorem validateField_rules:
  "(fieldKind f = ''text'' \<longrightarrow>
      validateField (Some f) =
        (if trim (field_value f) = []
         then \<lparr>isValid = False, errorMessage = ''Username is required''\<rparr>
         else if length (trim (field_value f)) < 3
         then \<lparr>isValid = False, errorMessage = ''Username must be at least 3 characters''\<rparr>
         else \<lparr>isValid = True, errorMessage = []\<rparr>))
   \<and> (fieldKind f = ''password'' \<longrightarrow>
      validateField (Some f) =
        (if trim (field_value f) = []
         then \<lparr>isValid = False, errorMessage = ''Password is required''\<rparr>
         else if length (trim (field_value f)) < 6
         then \<lparr>isValid = False, errorMessage = ''Password must be at least 6 characters''\<rparr>
         else \<lparr>isValid = True, errorMessage = []\<rparr>))
   \<and> (fieldKind f = ''select-one'' \<longrightarrow>
      validateField (Some f) =
        (if trim (field_value f) = []
         then \<lparr>isValid = False, errorMessage = ''Please select a department''\<rparr>
         else \<lparr>isValid = True, errorMessage = []\<rparr>))
   \<and> (fieldKind f \<noteq> ''text'' \<and> fieldKind f \<noteq> ''password'' \<and> fieldKind f \<noteq> ''select-one'' \<longrightarrow>
      validateField (Some f) = \<lparr>isValid = True, errorMessage = []\<rparr>)
   \<and> (isValid (validateField (Some f)) \<longleftrightarrow>
        (if fieldKind f = ''text'' then 3 \<le> length (trim (field_value f))
         else if fieldKind f = ''password'' then 6 \<le> length (trim (field_value f))
         else if fieldKind f = ''select-one'' then trim (field_value f) \<noteq> []
         else True))"
proof -
  have username_rule: "fieldKind f = ''text'' \<longrightarrow>
      validateField (Some f) =
        (if trim (field_value f) = []
         then \<lparr>isValid = False, errorMessage = ''Username is required''\<rparr>
         else if length (trim (field_value f)) < 3
         then \<lparr>isValid = False, errorMessage = ''Username must be at least 3 characters''\<rparr>
         else \<lparr>isValid = True, errorMessage = []\<rparr>)"
    by (simp add: validateField_def Let_def)
  have pw: "fieldKind f = ''password'' \<longrightarrow>
      validateField (Some f) =
        (if trim (field_value f) = []
         then \<lparr>isValid = False, errorMessage = ''Password is required''\<rparr>
         else if length (trim (field_value f)) < 6
         then \<lparr>isValid = False, errorMessage = ''Password must be at least 6 characters''\<rparr>
         else \<lparr>isValid = True, errorMessage = []\<rparr>)"
    by (simp add: validateField_def Let_def)
  have sel: "fieldKind f = ''select-one'' \<longrightarrow>
      validateField (Some f) =
        (if trim (field_value f) = []
         then \<lparr>isValid = False, errorMessage = ''Please select a department''\<rparr>
         else \<lparr>isValid = True, errorMessage = []\<rparr>)"
    by (simp add: validateField_def Let_def)
  have other: "fieldKind f \<noteq> ''text'' \<and> fieldKind f \<noteq> ''password'' \<and> fieldKind f \<noteq> ''select-one'' \<longrightarrow>
      validateField (Some f) = \<lparr>isValid = True, errorMessage = []\<rparr>"
    by (simp add: validateField_def Let_def)
  have verdict: "isValid (validateField (Some f)) \<longleftrightarrow>
        (if fieldKind f = ''text'' then 3 \<le> length (trim (field_value f))
         else if fieldKind f = ''password'' then 6 \<le> length (trim (field_value f))
         else if fieldKind f = ''select-one'' then trim (field_value f) \<noteq> []
         else True)"
    by (auto simp: validateField_def Let_def)
  from username_rule pw sel other verdict show ?thesis
    by (intro conjI)
qed

theorem validateField_rules_witness:
  "validateField (Some \<lparr>field_type = ''password'', tagName = ''INPUT'', field_value = ''12345''\<rparr>)
     = \<lparr>isValid = False, errorMessage = ''Password must be at least 6 characters''\<rparr>
   \<and> validateField (Some \<lparr>field_type = ''password'', tagName = ''INPUT'', field_value = ''123456''\<rparr>)
     = \<lparr>isValid = True, errorMessage = []\<rparr>
   \<and> validateField (Some \<lparr>field_type = ''text'', tagName = ''INPUT'', field_value = '' ''\<rparr>)
     = \<lparr>isValid = False, errorMessage = ''Username is required''\<rparr>
   \<and> validateField (Some \<lparr>field_type = ''text'', tagName = ''INPUT'', field_value = '' ab ''\<rparr>)
     = \<lparr>isValid = False, errorMessage = ''Username must be at least 3 characters''\<rparr>
   \<and> validateField (Some \<lparr>field_type = ''text'', tagName = ''INPUT'', field_value = ''abc''\<rparr>)
     = \<lparr>isValid = True, errorMessage = []\<rparr>
   \<and> validateField (Some \<lparr>field_type = ''select-one'', tagName = ''SELECT'', field_value = []\<rparr>)
     = \<lparr>isValid = False, errorMessage = ''Please select a department''\<rparr>
   \<and> validateField (Some \<lparr>field_type = ''select-one'', tagName = ''SELECT'', field_value = ''hr''\<rparr>)
     = \<lparr>isValid = True, errorMessage = []\<rparr>
   \<and> validateField (Some \<lparr>field_type = ''text'', tagName = ''INPUT'',
                          field_value = ''ab'' @ [CHR 0xA0]\<rparr>)
     = \<lparr>isValid = False, errorMessage = ''Username must be at least 3 characters''\<rparr>
   \<and> validateField (Some \<lparr>field_type = ''password'', tagName = ''INPUT'',
                          field_value = replicate 6 (CHR 0xA0)\<rparr>)
     = \<lparr>isValid = False, errorMessage = ''Password is required''\<rparr>
   \<and> validateField (Some \<lparr>field_type = [], tagName = ''SELECT'', field_value = ''hr''\<rparr>)
     = \<lparr>isValid = True, errorMessage = []\<rparr>"
  using
    validateField_rules [of "\<lparr>field_type = ''password'', tagName = ''INPUT'', field_value = ''12345''\<rparr>"]
    validateField_rules [of "\<lparr>field_type = ''password'', tagName = ''INPUT'', field_value = ''123456''\<rparr>"]
    validateField_rules [of "\<lparr>field_type = ''text'', tagName = ''INPUT'', field_value = '' ''\<rparr>"]
    validateField_rules [of "\<lparr>field_type = ''text'', tagName = ''INPUT'', field_value = '' ab ''\<rparr>"]
    validateField_rules [of "\<lparr>field_type = ''text'', tagName = ''INPUT'', field_value = ''abc''\<rparr>"]
    validateField_rules [of "\<lparr>field_type = ''select-one'', tagName = ''SELECT'', field_value = []\<rparr>"]
    validateField_rules [of "\<lparr>field_type = ''select-one'', tagName = ''SELECT'', field_value = ''hr''\<rparr>"]
    validateField_rules [of "\<lparr>field_type = ''text'', tagName = ''INPUT'',
                             field_value = ''ab'' @ [CHR 0xA0]\<rparr>"]
    validateField_rules [of "\<lparr>field_type = ''password'', tagName = ''INPUT'',
                             field_value = replicate 6 (CHR 0xA0)\<rparr>"]
    validateField_rules [of "\<lparr>field_type = [], tagName = ''SELECT'', field_value = ''hr''\<rparr>"]
  by (simp add: fieldKind_def str_defs numeral_eq_Suc)

end
